theory Spec2Isabelle
  imports Complex_Main
begin

section \<open>JavaScript strings and numbers used by the server\<close>

text \<open>
  A \<^typ>\<open>string\<close> stands for a JavaScript string whose code units are all below 256; a
  \<^typ>\<open>char\<close> is one code unit. JSON numbers are rationals, timestamps are milliseconds
  as natural numbers, and the integers produced by \<open>parseInt\<close> are unbounded.
\<close>

definition is_space :: "char \<Rightarrow> bool" where
  \<comment> \<open>the class \<open>\s\<close> of a regular expression, which is also what \<open>trim\<close> strips\<close>
  "is_space c \<longleftrightarrow> c \<in> set [CHR 0x09, CHR 0x0A, CHR 0x0B, CHR 0x0C, CHR 0x0D, CHR 0x20, CHR 0xA0]"

definition trim :: "string \<Rightarrow> string" where
  "trim s = rev (dropWhile is_space (rev (dropWhile is_space s)))"

definition lower_char :: "char \<Rightarrow> char" where
  "lower_char c = (let n = (of_char c :: nat) in
     if (65 \<le> n \<and> n \<le> 90) \<or> (192 \<le> n \<and> n \<le> 222 \<and> n \<noteq> 215) then char_of (n + 32) else c)"

definition toLowerCase :: "string \<Rightarrow> string" where
  "toLowerCase s = map lower_char s"

definition upper_char :: "char \<Rightarrow> char" where
  \<comment> \<open>\<open>toUpperCase\<close> on the characters an identifier is built from: digits and ASCII letters\<close>
  "upper_char c = (let n = (of_char c :: nat) in
     if 97 \<le> n \<and> n \<le> 122 then char_of (n - 32) else c)"

definition toUpperCase :: "string \<Rightarrow> string" where
  "toUpperCase s = map upper_char s"

definition is_digit :: "char \<Rightarrow> bool" where
  \<comment> \<open>the class \<open>\d\<close>\<close>
  "is_digit c \<longleftrightarrow> (48::nat) \<le> of_char c \<and> of_char c \<le> (57::nat)"

fun split_on :: "char \<Rightarrow> string \<Rightarrow> string list" where
  \<comment> \<open>\<open>s.split(sep)\<close> for a one-character separator\<close>
  "split_on sep [] = [[]]"
| "split_on sep (c # cs) =
     (if c = sep then [] # split_on sep cs
      else (case split_on sep cs of [] \<Rightarrow> [[c]] | w # ws \<Rightarrow> (c # w) # ws))"

definition substr :: "string \<Rightarrow> nat \<Rightarrow> nat \<Rightarrow> string" where
  "substr s start len = take len (drop start s)"

definition digits36 :: string where
  "digits36 = ''0123456789abcdefghijklmnopqrstuvwxyz''"

fun toString36 :: "nat \<Rightarrow> string" where
  \<comment> \<open>\<open>n.toString(36)\<close> for a non-negative integer\<close>
  "toString36 n = (if n < 36 then [digits36 ! n]
     else toString36 (n div 36) @ [digits36 ! (n mod 36)])"

declare toString36.simps [simp del]

definition digit_value :: "char \<Rightarrow> nat" where
  "digit_value c = (let n = (of_char c :: nat) in
     if 48 \<le> n \<and> n \<le> 57 then n - 48
     else if 97 \<le> n \<and> n \<le> 122 then n - 87
     else if 65 \<le> n \<and> n \<le> 90 then n - 55
     else 36)"

definition parseInt :: "string \<Rightarrow> int option" where
  \<comment> \<open>\<open>parseInt(s)\<close> with no radix argument; \<open>None\<close> is \<open>NaN\<close>\<close>
  "parseInt s =
     (let t = dropWhile is_space s;
          neg = (case t of [] \<Rightarrow> False | c # _ \<Rightarrow> c = CHR ''-'');
          u = (case t of [] \<Rightarrow> [] | c # r \<Rightarrow> if c = CHR ''+'' \<or> c = CHR ''-'' then r else t);
          hex = (take 2 u = ''0x'' \<or> take 2 u = ''0X'');
          radix = (if hex then 16 else 10);
          v = (if hex then drop 2 u else u);
          ds = takeWhile (\<lambda>c. digit_value c < radix) v;
          m = foldl (\<lambda>a c. a * radix + digit_value c) 0 ds
      in if ds = [] then None else Some (if neg then - int m else int m))"

section \<open>The applicant collection\<close>

text \<open>
  One document of the \<open>Applicant\<close> model, with the ten fields of \<open>applicantSchema\<close>.
  The collection is the list of its documents in insertion order. A handler that writes
  takes the collection and returns the new one with its response; a handler that only
  reads returns its response. Each request is one such step: requests are handled one
  after the other.
\<close>

record applicant =
  anonymousId :: string
  name :: string
  email :: string
  phone :: string
  position :: string
  experience :: rat
  skills :: "string list"
  education :: string
  submittedAt :: nat
  status :: string

type_synonym collection = "applicant list"

text \<open>A JSON value of a response, and an object as its list of keys and values.\<close>

datatype jval = JString string | JNumber rat | JStrings "string list" | JDate nat

type_synonym jobj = "(string \<times> jval) list"

definition fields_of :: "applicant \<Rightarrow> jobj" where
  "fields_of d =
     [(''anonymousId'', JString (anonymousId d)),
      (''name'', JString (name d)),
      (''email'', JString (email d)),
      (''phone'', JString (phone d)),
      (''position'', JString (position d)),
      (''experience'', JNumber (experience d)),
      (''skills'', JStrings (skills d)),
      (''education'', JString (education d)),
      (''submittedAt'', JDate (submittedAt d)),
      (''status'', JString (status d))]"

definition project :: "string list \<Rightarrow> applicant \<Rightarrow> jobj" where
  \<comment> \<open>an inclusion projection \<open>{k: 1, ..., _id: 0}\<close> of a query\<close>
  "project ks d = filter (\<lambda>kv. fst kv \<in> set ks) (fields_of d)"

definition keys :: "jobj \<Rightarrow> string list" where
  "keys obj = map fst obj"

definition findOne :: "(applicant \<Rightarrow> bool) \<Rightarrow> collection \<Rightarrow> applicant option" where
  "findOne cond coll = find cond coll"

fun update_first :: "(applicant \<Rightarrow> bool) \<Rightarrow> (applicant \<Rightarrow> applicant) \<Rightarrow> collection \<Rightarrow> collection" where
  "update_first cond f [] = []"
| "update_first cond f (d # ds) = (if cond d then f d # ds else d # update_first cond f ds)"

datatype save_error = ValidationError | DuplicateKey

definition new_Applicant ::
  "nat \<Rightarrow> string \<Rightarrow> string \<Rightarrow> string \<Rightarrow> string \<Rightarrow> string \<Rightarrow> rat \<Rightarrow> string list \<Rightarrow> string \<Rightarrow> applicant" where
  \<comment> \<open>\<open>new Applicant(applicantData)\<close> at time \<open>now\<close>: the setters and defaults of the schema\<close>
  "new_Applicant now aid nm em ph pos ex sk ed =
     \<lparr> anonymousId = aid,
       name = trim nm,
       email = toLowerCase (trim em),
       phone = trim ph,
       position = trim pos,
       experience = ex,
       skills = map trim sk,
       education = trim ed,
       submittedAt = now,
       status = ''pending'' \<rparr>"

definition schema_valid :: "applicant \<Rightarrow> bool" where
  \<comment> \<open>the validators of the schema: \<open>required\<close> on the strings, \<open>min: 0\<close>, the \<open>enum\<close> of status\<close>
  "schema_valid d \<longleftrightarrow>
     anonymousId d \<noteq> [] \<and> name d \<noteq> [] \<and> email d \<noteq> [] \<and> phone d \<noteq> [] \<and> position d \<noteq> [] \<and>
     0 \<le> experience d \<and> education d \<noteq> [] \<and>
     status d \<in> set [''pending'', ''reviewed'', ''contacted'', ''rejected'']"

definition save :: "collection \<Rightarrow> applicant \<Rightarrow> save_error + collection" where
  \<comment> \<open>\<open>applicant.save()\<close>: validation, then the insert under the unique index on \<open>anonymousId\<close>
      (error code 11000), the only unique index the schema declares\<close>
  "save coll d =
     (if \<not> schema_valid d then Inl ValidationError
      else if anonymousId d \<in> set (map anonymousId coll) then Inl DuplicateKey
      else Inr (coll @ [d]))"

section \<open>Utility functions\<close>

definition generateAnonymousId :: "nat \<Rightarrow> string \<Rightarrow> string" where
  \<comment> \<open>\<open>now\<close> is \<open>Date.now()\<close> and \<open>rnd\<close> is \<open>Math.random().toString(36)\<close>\<close>
  "generateAnonymousId now rnd = toUpperCase (''APP'' @ toString36 now @ substr rnd 2 5)"

definition plain_char :: "char \<Rightarrow> bool" where
  \<comment> \<open>the class \<open>[^\s@]\<close>\<close>
  "plain_char c \<longleftrightarrow> \<not> is_space c \<and> c \<noteq> CHR ''@''"

definition validateEmail :: "string \<Rightarrow> bool" where
  \<comment> \<open>\<open>/^[^\s@]+@[^\s@]+\.[^\s@]+$/\<close>: a non-empty plain local part, one \<open>@\<close>, and a plain
      domain with a dot that is neither its first nor its last character\<close>
  "validateEmail em =
     (let local = takeWhile plain_char em in
      local \<noteq> [] \<and>
      (case drop (length local) em of
         [] \<Rightarrow> False
       | c # host \<Rightarrow> c = CHR ''@'' \<and> list_all plain_char host \<and>
                     CHR ''.'' \<in> set (butlast (tl host))))"

definition validatePhone :: "string \<Rightarrow> bool" where
  \<comment> \<open>\<open>/^[\+]?[1-9][\d]{0,15}$/\<close> on the phone without the characters of \<open>[\s\-\(\)]\<close>\<close>
  "validatePhone ph =
     (let t = filter (\<lambda>c. \<not> (is_space c \<or> c = CHR ''-'' \<or> c = CHR ''('' \<or> c = CHR '')'')) ph;
          u = (case t of [] \<Rightarrow> [] | c # r \<Rightarrow> if c = CHR ''+'' then r else t)
      in case u of
           [] \<Rightarrow> False
         | d # ds \<Rightarrow> is_digit d \<and> d \<noteq> CHR ''0'' \<and> list_all is_digit ds \<and> length ds \<le> 15)"

section \<open>Requests and responses\<close>

datatype skills_input = SkillsString string | SkillsArray "string list"

text \<open>
  The body of \<open>POST /api/applicants\<close> as the application form sends it: strings, a number
  for \<open>experience\<close>, and \<open>skills\<close> as a string or an array of strings. \<open>None\<close> is a field
  that is absent.
\<close>

record submission =
  req_name :: "string option"
  req_email :: "string option"
  req_phone :: "string option"
  req_position :: "string option"
  req_experience :: "rat option"
  req_skills :: "skills_input option"
  req_education :: "string option"

text \<open>What one submission reads from the clock and the random generator.\<close>

record ambient =
  id_now :: nat        \<comment> \<open>\<open>Date.now()\<close> in \<open>generateAnonymousId\<close>\<close>
  id_random :: string  \<comment> \<open>\<open>Math.random().toString(36)\<close>\<close>
  doc_now :: nat       \<comment> \<open>\<open>Date.now\<close>, the default of \<open>submittedAt\<close>\<close>

record pagination =
  page :: int
  limit :: int
  total :: nat
  totalPages :: int
  hasNext :: bool
  hasPrev :: bool

datatype body =
    Failure string                 \<comment> \<open>\<open>{success: false, error}\<close>\<close>
  | Submitted string string        \<comment> \<open>\<open>{success: true, anonymousId, message}\<close>\<close>
  | Listing "jobj list" pagination \<comment> \<open>\<open>{success: true, data, pagination}\<close>\<close>
  | Contact jobj                   \<comment> \<open>\<open>{success: true, data}\<close>\<close>
  | StatusUpdated jobj string      \<comment> \<open>\<open>{success: true, data, message}\<close>\<close>

type_synonym response = "nat \<times> body"

definition falsy :: "string option \<Rightarrow> bool" where
  \<comment> \<open>\<open>!v\<close> for a string that may be absent\<close>
  "falsy v \<longleftrightarrow> (case v of None \<Rightarrow> True | Some s \<Rightarrow> s = [])"

definition falsy_number :: "rat option \<Rightarrow> bool" where
  \<comment> \<open>\<open>!v\<close> for a number that may be absent: zero is falsy\<close>
  "falsy_number v \<longleftrightarrow> (case v of None \<Rightarrow> True | Some x \<Rightarrow> x = 0)"

definition falsy_skills :: "skills_input option \<Rightarrow> bool" where
  \<comment> \<open>\<open>!v\<close> for a string or an array: every array is truthy\<close>
  "falsy_skills v \<longleftrightarrow> (case v of None \<Rightarrow> True | Some (SkillsString s) \<Rightarrow> s = [] | Some (SkillsArray _) \<Rightarrow> False)"

definition skills_of :: "skills_input \<Rightarrow> string list" where
  "skills_of v = (case v of
       SkillsArray xs \<Rightarrow> xs
     | SkillsString s \<Rightarrow> filter (\<lambda>skill. length skill > 0) (map trim (split_on CHR '','' s)))"

section \<open>Submit application\<close>

definition validation_error :: "submission \<Rightarrow> string option" where
  \<comment> \<open>the checks under \<open>// Validation\<close>, in their order; \<open>None\<close> when all of them pass\<close>
  "validation_error b =
     (if falsy (req_name b) \<or> falsy (req_email b) \<or> falsy (req_phone b) \<or> falsy (req_position b) \<or>
         falsy_number (req_experience b) \<or> falsy_skills (req_skills b) \<or> falsy (req_education b)
      then Some ''All fields are required''
      else if \<not> validateEmail (the (req_email b)) then Some ''Invalid email format''
      else if \<not> validatePhone (the (req_phone b)) then Some ''Invalid phone number format''
      else if the (req_experience b) < 0 \<or> the (req_experience b) > 50
      then Some ''Experience must be between 0 and 50 years''
      else None)"

definition applicantData :: "ambient \<Rightarrow> submission \<Rightarrow> applicant" where
  \<comment> \<open>\<open>new Applicant(applicantData)\<close> for a body that passed the validation\<close>
  "applicantData amb b =
     new_Applicant (doc_now amb)
       (generateAnonymousId (id_now amb) (id_random amb))
       (trim (the (req_name b)))
       (toLowerCase (trim (the (req_email b))))
       (trim (the (req_phone b)))
       (trim (the (req_position b)))
       (the (req_experience b))
       (skills_of (the (req_skills b)))
       (trim (the (req_education b)))"

definition post_applicants :: "ambient \<Rightarrow> collection \<Rightarrow> submission \<Rightarrow> response \<times> collection" where
  "post_applicants amb coll b =
     (case validation_error b of
        Some msg \<Rightarrow> ((400, Failure msg), coll)
      | None \<Rightarrow>
         (case findOne (\<lambda>d. email d = toLowerCase (trim (the (req_email b))) \<and>
                             position d = trim (the (req_position b))) coll of
            Some existing \<Rightarrow> ((409, Failure ''You have already applied for this position''), coll)
          | None \<Rightarrow>
              (case save coll (applicantData amb b) of
                 Inr coll' \<Rightarrow>
                   ((201, Submitted (anonymousId (applicantData amb b))
                            ''Application submitted successfully''), coll')
               | Inl DuplicateKey \<Rightarrow>
                   ((500, Failure ''Duplicate application detected. Please try again.''), coll)
               | Inl ValidationError \<Rightarrow> ((500, Failure ''Internal server error''), coll))))"

text \<open>
  The handler awaits twice, at \<open>findOne\<close> and at \<open>save\<close>, and another request can be handled
  in between. The two parts of the handler, each on the collection as it is when that part
  runs; \<open>post_applicants\<close> is the two on one collection.
\<close>

definition post_before_save :: "collection \<Rightarrow> submission \<Rightarrow> response option" where
  \<comment> \<open>the handler up to \<open>await applicant.save()\<close>: the validation and the \<open>findOne\<close>, on
      the collection as it is then; \<open>Some\<close> is the response of an early return\<close>
  "post_before_save coll b =
     (case validation_error b of
        Some msg \<Rightarrow> Some (400, Failure msg)
      | None \<Rightarrow>
         (case findOne (\<lambda>d. email d = toLowerCase (trim (the (req_email b))) \<and>
                             position d = trim (the (req_position b))) coll of
            Some existing \<Rightarrow> Some (409, Failure ''You have already applied for this position'')
          | None \<Rightarrow> None))"

definition post_save :: "ambient \<Rightarrow> collection \<Rightarrow> submission \<Rightarrow> response \<times> collection" where
  \<comment> \<open>the handler from \<open>await applicant.save()\<close> on, on the collection as it is when the
      write arrives\<close>
  "post_save amb coll b =
     (case save coll (applicantData amb b) of
        Inr coll' \<Rightarrow>
          ((201, Submitted (anonymousId (applicantData amb b))
                   ''Application submitted successfully''), coll')
      | Inl DuplicateKey \<Rightarrow>
          ((500, Failure ''Duplicate application detected. Please try again.''), coll)
      | Inl ValidationError \<Rightarrow> ((500, Failure ''Internal server error''), coll))"

definition post_applicants_overlapping ::
  "ambient \<Rightarrow> submission \<Rightarrow> ambient \<Rightarrow> submission \<Rightarrow> collection \<Rightarrow> (response \<times> response) \<times> collection" where
  \<comment> \<open>two submissions whose handling overlaps: both reach their \<open>await applicant.save()\<close>
      before the write of either arrives, then the first write and the second\<close>
  "post_applicants_overlapping amb1 b1 amb2 b2 coll =
     (let early1 = post_before_save coll b1;
          early2 = post_before_save coll b2;
          s1 = (case early1 of Some r \<Rightarrow> (r, coll) | None \<Rightarrow> post_save amb1 coll b1);
          s2 = (case early2 of Some r \<Rightarrow> (r, snd s1) | None \<Rightarrow> post_save amb2 (snd s1) b2)
      in ((fst s1, fst s2), snd s2))"

section \<open>Get all applicants (anonymous data)\<close>

text \<open>
  The query string of \<open>GET /api/applicants\<close>: every parameter is a string or absent.
\<close>

record query =
  q_position :: "string option"
  q_minExperience :: "string option"
  q_maxExperience :: "string option"
  q_skills :: "string option"
  q_page :: "string option"
  q_limit :: "string option"

text \<open>
  The two services of the JavaScript engine that the handler applies to text of the
  caller: \<open>new RegExp(pattern, 'i')\<close>, which throws a \<open>SyntaxError\<close> on a malformed
  pattern (\<open>None\<close>) and otherwise gives the test of the expression on a string, and
  \<open>Number(text)\<close>, where \<open>None\<close> is \<open>NaN\<close>.
\<close>

record engine =
  RegExp_i :: "string \<Rightarrow> (string \<Rightarrow> bool) option"
  Number :: "string \<Rightarrow> rat option"

record filter =
  f_position :: "(string \<Rightarrow> bool) option"
  f_gte :: "rat option"
  f_lte :: "rat option"
  f_skills_in :: "(string \<Rightarrow> bool) list option"

datatype query_error = SyntaxError | CastError

fun all_some :: "'a option list \<Rightarrow> 'a list option" where
  "all_some [] = Some []"
| "all_some (None # xs) = None"
| "all_some (Some x # xs) = (case all_some xs of None \<Rightarrow> None | Some ys \<Rightarrow> Some (x # ys))"

definition build_filter :: "engine \<Rightarrow> query \<Rightarrow> query_error + filter" where
  \<comment> \<open>the filter object built from the query parameters. A malformed pattern throws; a bound
      that is \<open>NaN\<close> is refused when the query casts it to the \<open>Number\<close> of the schema\<close>
  "build_filter eng q =
     (let pos = (if falsy (q_position q) then Some None
                 else map_option Some (RegExp_i eng (the (q_position q))));
          gte = (if falsy (q_minExperience q) then Some None
                 else map_option Some (Number eng (the (q_minExperience q))));
          lte = (if falsy (q_maxExperience q) then Some None
                 else map_option Some (Number eng (the (q_maxExperience q))));
          sks = (if falsy (q_skills q) then Some None
                 else map_option Some
                        (all_some (map (RegExp_i eng) (map trim (split_on CHR '','' (the (q_skills q)))))))
      in case pos of
           None \<Rightarrow> Inl SyntaxError
         | Some p \<Rightarrow>
            (case sks of
               None \<Rightarrow> Inl SyntaxError
             | Some s \<Rightarrow>
                (case (gte, lte) of
                   (Some g, Some l) \<Rightarrow>
                     Inr \<lparr> f_position = p, f_gte = g, f_lte = l, f_skills_in = s \<rparr>
                 | _ \<Rightarrow> Inl CastError)))"

definition matches :: "filter \<Rightarrow> applicant \<Rightarrow> bool" where
  "matches f d \<longleftrightarrow>
     (case f_position f of None \<Rightarrow> True | Some t \<Rightarrow> t (position d)) \<and>
     (case f_gte f of None \<Rightarrow> True | Some x \<Rightarrow> x \<le> experience d) \<and>
     (case f_lte f of None \<Rightarrow> True | Some x \<Rightarrow> experience d \<le> x) \<and>
     (case f_skills_in f of None \<Rightarrow> True
      | Some ts \<Rightarrow> list_ex (\<lambda>skill. list_ex (\<lambda>t. t skill) ts) (skills d))"

definition pageNum :: "query \<Rightarrow> int option" where
  \<comment> \<open>\<open>Math.max(1, parseInt(page))\<close> with the default \<open>page = 1\<close>; \<open>None\<close> is \<open>NaN\<close>\<close>
  "pageNum q = map_option (\<lambda>n. max 1 n) (parseInt (case q_page q of None \<Rightarrow> ''1'' | Some s \<Rightarrow> s))"

definition limitNum :: "query \<Rightarrow> int option" where
  \<comment> \<open>\<open>Math.min(50, Math.max(1, parseInt(limit)))\<close> with the default \<open>limit = 10\<close>\<close>
  "limitNum q =
     map_option (\<lambda>n. min 50 (max 1 n)) (parseInt (case q_limit q of None \<Rightarrow> ''10'' | Some s \<Rightarrow> s))"

definition anonymous_fields :: "string list" where
  "anonymous_fields =
     [''anonymousId'', ''position'', ''experience'', ''skills'', ''education'', ''submittedAt'', ''status'']"

definition get_applicants :: "engine \<Rightarrow> collection \<Rightarrow> query \<Rightarrow> response" where
  \<comment> \<open>every exception inside the handler ends in its \<open>catch\<close>; a \<open>skip\<close> or \<open>limit\<close> that is
      \<open>NaN\<close> is refused by the database\<close>
  "get_applicants eng coll q =
     (case build_filter eng q of
        Inl err \<Rightarrow> (500, Failure ''Internal server error'')
      | Inr f \<Rightarrow>
         (case (pageNum q, limitNum q) of
            (Some pnum, Some lnum) \<Rightarrow>
              (let skip = (pnum - 1) * lnum;
                   found = filter (matches f) coll;
                   applicants = map (project anonymous_fields)
                     (take (nat lnum) (drop (nat skip) (sort_key (\<lambda>d. - int (submittedAt d)) found)));
                   total = length found;
                   totalPages = \<lceil>rat_of_nat total / rat_of_int lnum\<rceil>
               in (200, Listing applicants
                     \<lparr> page = pnum, limit = lnum, total = total, totalPages = totalPages,
                       hasNext = (pnum < totalPages), hasPrev = (pnum > 1) \<rparr>))
          | _ \<Rightarrow> (500, Failure ''Internal server error'')))"

section \<open>Get specific applicant contact info\<close>

definition get_applicant_by_id :: "collection \<Rightarrow> string \<Rightarrow> response" where
  "get_applicant_by_id coll aid =
     (case findOne (\<lambda>d. anonymousId d = aid) coll of
        None \<Rightarrow> (404, Failure ''Applicant not found'')
      | Some d \<Rightarrow> (200, Contact (project [''name'', ''email'', ''phone''] d)))"

section \<open>Update applicant status\<close>

definition validStatuses :: "string list" where
  "validStatuses = [''pending'', ''reviewed'', ''contacted'', ''rejected'']"

definition patch_applicant_status :: "collection \<Rightarrow> string \<Rightarrow> string option \<Rightarrow> response \<times> collection" where
  "patch_applicant_status coll aid st =
     (if falsy st \<or> the st \<notin> set validStatuses
      then ((400, Failure ''Valid status is required: pending, reviewed, contacted, rejected''), coll)
      else case findOne (\<lambda>d. anonymousId d = aid) coll of
             None \<Rightarrow> ((404, Failure ''Applicant not found''), coll)
           | Some d \<Rightarrow>
               ((200, StatusUpdated (project [''anonymousId'', ''status''] (d\<lparr>status := the st\<rparr>))
                        ''Status updated successfully''),
                update_first (\<lambda>d. anonymousId d = aid) (\<lambda>d. d\<lparr>status := the st\<rparr>) coll))"

section \<open>The application form\<close>


section \<open>Notions used to state the properties\<close>

definition pair_unique :: "collection \<Rightarrow> bool" where
  \<comment> \<open>no two stored documents share the pair of email and position\<close>
  "pair_unique coll \<longleftrightarrow> distinct (map (\<lambda>d. (email d, position d)) coll)"

definition listed :: "response \<Rightarrow> jobj list" where
  \<comment> \<open>the items a response carries in \<open>data\<close>, when it is a listing\<close>
  "listed r = (case snd r of Listing items pg \<Rightarrow> items | _ \<Rightarrow> [])"



section \<open>Example data\<close>

fun occurs_in :: "string \<Rightarrow> string \<Rightarrow> bool" where
  "occurs_in p [] = (p = [])"
| "occurs_in p (c # cs) = (take (length p) (c # cs) = p \<or> occurs_in p cs)"

text \<open>
  An engine for the examples. It agrees with JavaScript on the arguments the examples
  give it: patterns made of ASCII letters, which match where they occur in the string
  without regard to case, and numbers written as decimal integers.
\<close>

definition literal_engine :: engine where
  "literal_engine =
     \<lparr> RegExp_i = (\<lambda>p. Some (\<lambda>s. occurs_in (toLowerCase p) (toLowerCase s))),
       Number = (\<lambda>s. map_option rat_of_int (parseInt s)) \<rparr>"

definition jane :: submission where
  "jane = \<lparr> req_name = Some ''Jane Doe'', req_email = Some ''jane@x.com'',
            req_phone = Some ''+12025550123'', req_position = Some ''Engineer'',
            req_experience = Some 3, req_skills = Some (SkillsString ''Go,SQL''),
            req_education = Some ''BSc'' \<rparr>"

definition jane_again :: submission where
  \<comment> \<open>the email and position of \<open>jane\<close>, every other field different\<close>
  "jane_again = \<lparr> req_name = Some ''J. Doe'', req_email = Some ''jane@x.com'',
            req_phone = Some ''(202) 555-0199'', req_position = Some ''Engineer'',
            req_experience = Some 4.5, req_skills = Some (SkillsArray [''Rust'']),
            req_education = Some ''MSc'' \<rparr>"

definition clock0 :: ambient where
  "clock0 = \<lparr> id_now = 1730000000000, id_random = ''0.4fzyo82mvyr'', doc_now = 1730000000001 \<rparr>"

definition clock1 :: ambient where
  "clock1 = \<lparr> id_now = 1730000005000, id_random = ''0.9k2d7q1xw'', doc_now = 1730000005001 \<rparr>"

definition jane_record :: applicant where
  "jane_record =
     \<lparr> anonymousId = ''APPM2R1BZ7K4FZYO'', name = ''Jane Doe'', email = ''jane@x.com'',
       phone = ''+12025550123'', position = ''Engineer'', experience = 3, skills = [''Go'', ''SQL''],
       education = ''BSc'', submittedAt = 1730000000001, status = ''pending'' \<rparr>"

definition sam_record :: applicant where
  "sam_record =
     \<lparr> anonymousId = ''APPM2QVDN5SK9Q2X'', name = ''Sam Roe'', email = ''sam@y.org'',
       phone = ''+27115550100'', position = ''Analyst'', experience = 7, skills = [''R''],
       education = ''MSc'', submittedAt = 1729990000001, status = ''reviewed'' \<rparr>"

definition ann_record :: applicant where
  \<comment> \<open>a document whose identifier was generated in the millisecond of \<open>clock0\<close> from the same
      random digits\<close>
  "ann_record =
     \<lparr> anonymousId = ''APPM2R1BZ7K4FZYO'', name = ''Ann Lee'', email = ''ann@z.net'',
       phone = ''+442075550199'', position = ''Designer'', experience = 5, skills = [''Figma''],
       education = ''BA'', submittedAt = 1730000000000, status = ''pending'' \<rparr>"

definition jane_again_record :: applicant where
  "jane_again_record =
     \<lparr> anonymousId = ''APPM2R1C32G9K2D7'', name = ''J. Doe'', email = ''jane@x.com'',
       phone = ''(202) 555-0199'', position = ''Engineer'', experience = 4.5, skills = [''Rust''],
       education = ''MSc'', submittedAt = 1730000005001, status = ''pending'' \<rparr>"

definition strict_engine :: engine where
  \<comment> \<open>\<open>new RegExp('C++', 'i')\<close> throws a \<open>SyntaxError\<close>: the second \<open>+\<close> has nothing to repeat\<close>
  "strict_engine =
     \<lparr> RegExp_i = (\<lambda>p. if p = ''C++'' then None else RegExp_i literal_engine p),
       Number = Number literal_engine \<rparr>"

definition by_position :: "string \<Rightarrow> query" where
  "by_position p = \<lparr> q_position = Some p, q_minExperience = None, q_maxExperience = None,
                     q_skills = None, q_page = None, q_limit = None \<rparr>"

section \<open>Facts about the string functions\<close>

lemma dropWhile_fix: "xs = [] \<or> \<not> P (hd xs) \<Longrightarrow> dropWhile P xs = xs"
  by (cases xs) auto

lemma hd_strip_end:
  assumes "xs = [] \<or> \<not> P (hd xs)"
  shows "rev (dropWhile P (rev xs)) = [] \<or> \<not> P (hd (rev (dropWhile P (rev xs))))"
proof (cases "dropWhile P (rev xs) = []")
  case True
  then show ?thesis by simp
next
  case False
  then have ne: "xs \<noteq> []" by auto
  have "hd (rev (dropWhile P (rev xs))) = last (dropWhile P (rev xs))"
    using False by (simp add: hd_rev)
  also have "\<dots> = last (rev xs)"
    using False by (metis takeWhile_dropWhile_id last_appendR)
  also have "\<dots> = hd xs" using ne by (simp add: last_rev)
  finally show ?thesis using assms ne by simp
qed

lemma trim_trim: "trim (trim s) = trim s"
proof -
  let ?t = "dropWhile is_space s"
  have t: "?t = [] \<or> \<not> is_space (hd ?t)" by (metis hd_dropWhile)
  have u: "trim s = [] \<or> \<not> is_space (hd (trim s))"
    unfolding trim_def using t by (rule hd_strip_end [where P = is_space and xs = "dropWhile is_space s"])
  have "dropWhile is_space (trim s) = trim s" using u by (rule dropWhile_fix)
  moreover have "dropWhile is_space (rev (trim s)) = rev (trim s)"
    by (simp add: trim_def)
  ultimately show ?thesis by (simp add: trim_def)
qed

lemma char_cases: obtains n :: nat where "c = char_of n" "n < 256"
proof -
  have "c = char_of (of_char c :: nat)" by simp
  moreover have "(of_char c :: nat) < 256" by simp
  ultimately show ?thesis using that by blast
qed

lemma is_space_code: "is_space c \<longleftrightarrow> (of_char c :: nat) \<in> {9, 10, 11, 12, 13, 32, 160}"
proof -
  obtain n :: nat where c: "c = char_of n" and n: "n < 256" by (rule char_cases)
  show ?thesis unfolding c is_space_def using n by (simp add: char_of_eq_iff take_bit_eq_mod)
qed

lemma lower_char_space: "is_space (lower_char c) = is_space c"
  unfolding is_space_code lower_char_def Let_def
  by (auto simp: )

lemma lower_char_idem: "lower_char (lower_char c) = lower_char c"
  unfolding lower_char_def Let_def
  by auto

lemma trim_toLowerCase: "trim (toLowerCase s) = toLowerCase (trim s)"
proof -
  have "is_space \<circ> lower_char = is_space" by (rule ext) (simp add: lower_char_space)
  then show ?thesis by (simp add: trim_def toLowerCase_def dropWhile_map rev_map)
qed

lemma toLowerCase_idem: "toLowerCase (toLowerCase s) = toLowerCase s"
  by (simp add: toLowerCase_def lower_char_idem)

lemma email_setter: "toLowerCase (trim (toLowerCase (trim s))) = toLowerCase (trim s)"
  by (simp add: trim_toLowerCase toLowerCase_idem trim_trim)









section \<open>Facts about the handlers\<close>

lemma applicantData_email: "email (applicantData amb b) = toLowerCase (trim (the (req_email b)))"
  by (simp add: applicantData_def new_Applicant_def email_setter)

lemma applicantData_position: "position (applicantData amb b) = trim (the (req_position b))"
  by (simp add: applicantData_def new_Applicant_def trim_trim)



lemma post_created:
  assumes "post_applicants amb coll b = ((201, bd), coll')"
  shows "validation_error b = None"
    and "findOne (\<lambda>d. email d = toLowerCase (trim (the (req_email b))) \<and>
                       position d = trim (the (req_position b))) coll = None"
    and "coll' = coll @ [applicantData amb b]"
    and "anonymousId (applicantData amb b) \<notin> set (map anonymousId coll)"
    and "bd = Submitted (anonymousId (applicantData amb b)) ''Application submitted successfully''"
  using assms
  by (auto simp: post_applicants_def save_def split: option.splits sum.splits save_error.splits if_splits)

lemma post_collection:
  "snd (post_applicants amb coll b) = coll \<or>
   (snd (post_applicants amb coll b) = coll @ [applicantData amb b] \<and>
    findOne (\<lambda>d. email d = toLowerCase (trim (the (req_email b))) \<and>
                  position d = trim (the (req_position b))) coll = None)"
  by (auto simp: post_applicants_def save_def split: option.splits sum.splits save_error.splits if_splits)

lemma update_first_keeps:
  assumes "\<And>d. g (f d) = g d"
  shows "map g (update_first cond f coll) = map g coll"
  by (induction coll) (simp_all add: assms)

lemma patch_collection:
  "snd (patch_applicant_status coll aid st) = coll \<or>
   snd (patch_applicant_status coll aid st) =
     update_first (\<lambda>d. anonymousId d = aid) (\<lambda>d. d\<lparr>status := the st\<rparr>) coll"
  by (auto simp: patch_applicant_status_def split: option.splits)

lemma post_keeps_pair_unique:
  assumes "pair_unique coll"
  shows "pair_unique (snd (post_applicants amb coll b))"
  using post_collection [of amb coll b]
proof (elim disjE conjE)
  assume "snd (post_applicants amb coll b) = coll"
  then show ?thesis using assms by simp
next
  assume added: "snd (post_applicants amb coll b) = coll @ [applicantData amb b]"
    and none: "findOne (\<lambda>d. email d = toLowerCase (trim (the (req_email b))) \<and>
                  position d = trim (the (req_position b))) coll = None"
  from none have "\<forall>d\<in>set coll. \<not> (email d = email (applicantData amb b) \<and>
      position d = position (applicantData amb b))"
    by (simp add: findOne_def find_None_iff applicantData_email applicantData_position)
  then have "(email (applicantData amb b), position (applicantData amb b))
      \<notin> set (map (\<lambda>d. (email d, position d)) coll)"
    by auto
  then show ?thesis using assms added by (simp add: pair_unique_def)
qed

lemma patch_keeps_pair_unique:
  assumes "pair_unique coll"
  shows "pair_unique (snd (patch_applicant_status coll aid st))"
proof -
  have "map (\<lambda>d. (email d, position d))
          (update_first (\<lambda>d. anonymousId d = aid) (\<lambda>d. d\<lparr>status := the st\<rparr>) coll)
        = map (\<lambda>d. (email d, position d)) coll"
    by (rule update_first_keeps) simp
  then show ?thesis
    using assms patch_collection [of coll aid st] by (auto simp: pair_unique_def)
qed

lemma second_submission_conflicts:
  assumes first: "post_applicants amb1 coll b1 = ((201, bd), coll1)"
    and valid: "validation_error b2 = None"
    and same_email: "toLowerCase (trim (the (req_email b2))) = toLowerCase (trim (the (req_email b1)))"
    and same_position: "trim (the (req_position b2)) = trim (the (req_position b1))"
  shows "post_applicants amb2 coll1 b2 =
           ((409, Failure ''You have already applied for this position''), coll1)"
proof -
  have coll1: "coll1 = coll @ [applicantData amb1 b1]" using post_created(3) [OF first] .
  have "applicantData amb1 b1 \<in> set coll1" by (simp add: coll1)
  moreover have "email (applicantData amb1 b1) = toLowerCase (trim (the (req_email b2)))"
    "position (applicantData amb1 b1) = trim (the (req_position b2))"
    by (simp_all add: applicantData_email applicantData_position same_email same_position)
  ultimately have "findOne (\<lambda>d. email d = toLowerCase (trim (the (req_email b2))) \<and>
                       position d = trim (the (req_position b2))) coll1 \<noteq> None"
    unfolding findOne_def find_None_iff by blast
  then show ?thesis
    by (auto simp: post_applicants_def valid)
qed

lemma keys_project_anonymous:
  "keys (project anonymous_fields d) =
     [''anonymousId'', ''position'', ''experience'', ''skills'', ''education'', ''submittedAt'', ''status'']"
  by (simp add: keys_def project_def fields_of_def anonymous_fields_def)

lemma project_contact:
  "project [''name'', ''email'', ''phone''] d =
     [(''name'', JString (name d)), (''email'', JString (email d)), (''phone'', JString (phone d))]"
  by (simp add: project_def fields_of_def)

lemma project_status:
  "project [''anonymousId'', ''status''] d =
     [(''anonymousId'', JString (anonymousId d)), (''status'', JString (status d))]"
  by (simp add: project_def fields_of_def)

lemma get_applicants_shape:
  "(\<exists>f pnum lnum pg. build_filter eng q = Inr f \<and> pageNum q = Some pnum \<and> limitNum q = Some lnum \<and>
      get_applicants eng coll q =
        (200, Listing (map (project anonymous_fields)
           (take (nat lnum) (drop (nat ((pnum - 1) * lnum))
              (sort_key (\<lambda>d. - int (submittedAt d)) (filter (matches f) coll))))) pg))
   \<or> get_applicants eng coll q = (500, Failure ''Internal server error'')"
  by (auto simp: get_applicants_def Let_def split: sum.splits option.splits)

lemma find_first:
  assumes "\<exists>d\<in>set coll. cond d"
  shows "\<exists>i<length coll. cond (coll ! i) \<and> (\<forall>j<i. \<not> cond (coll ! j)) \<and>
           find cond coll = Some (coll ! i) \<and>
           update_first cond f coll = coll[i := f (coll ! i)]"
  using assms
proof (induction coll)
  case Nil
  then show ?case by simp
next
  case (Cons d ds)
  show ?case
  proof (cases "cond d")
    case True
    then have "cond ((d # ds) ! 0) \<and> (\<forall>j<0. \<not> cond ((d # ds) ! j)) \<and>
           find cond (d # ds) = Some ((d # ds) ! 0) \<and>
           update_first cond f (d # ds) = (d # ds)[0 := f ((d # ds) ! 0)]"
      by simp
    then show ?thesis by (intro exI [of _ 0]) simp
  next
    case False
    with Cons.prems have "\<exists>d\<in>set ds. cond d" by simp
    from Cons.IH [OF this] obtain i where i: "i < length ds" "cond (ds ! i)"
      "\<forall>j<i. \<not> cond (ds ! j)" "find cond ds = Some (ds ! i)"
      "update_first cond f ds = ds[i := f (ds ! i)]" by blast
    have "\<forall>j<Suc i. \<not> cond ((d # ds) ! j)"
      using False i(3) by (auto simp: less_Suc_eq_0_disj)
    then have "Suc i < length (d # ds) \<and> cond ((d # ds) ! Suc i) \<and> (\<forall>j<Suc i. \<not> cond ((d # ds) ! j)) \<and>
           find cond (d # ds) = Some ((d # ds) ! Suc i) \<and>
           update_first cond f (d # ds) = (d # ds)[Suc i := f ((d # ds) ! Suc i)]"
      using False i by simp
    then show ?thesis by blast
  qed
qed

lemma limitNum_range: "limitNum q = Some lnum \<Longrightarrow> 1 \<le> lnum \<and> lnum \<le> 50"
  by (auto simp: limitNum_def)

lemma get_applicants_listing:
  assumes "build_filter eng q = Inr f" "pageNum q = Some pnum" "limitNum q = Some lnum"
  shows "get_applicants eng coll q =
     (200, Listing
        (map (project anonymous_fields)
           (take (nat lnum) (drop (nat ((pnum - 1) * lnum))
              (sort_key (\<lambda>d. - int (submittedAt d)) (filter (matches f) coll)))))
        \<lparr> page = pnum, limit = lnum, total = length (filter (matches f) coll),
          totalPages = \<lceil>rat_of_nat (length (filter (matches f) coll)) / rat_of_int lnum\<rceil>,
          hasNext = (pnum < \<lceil>rat_of_nat (length (filter (matches f) coll)) / rat_of_int lnum\<rceil>),
          hasPrev = (pnum > 1) \<rparr>)"
  using assms by (simp add: get_applicants_def Let_def)









lemma post_applicants_steps:
  "post_applicants amb coll b =
     (case post_before_save coll b of Some r \<Rightarrow> (r, coll) | None \<Rightarrow> post_save amb coll b)"
  by (simp add: post_applicants_def post_before_save_def post_save_def
      split: option.splits sum.splits save_error.splits)

lemma stored_pair:
  "findOne (\<lambda>d. email d = e \<and> position d = p) coll = None \<longleftrightarrow>
     (e, p) \<notin> set (map (\<lambda>d. (email d, position d)) coll)"
  by (auto simp: findOne_def find_None_iff)

lemma post_conflict:
  assumes "validation_error b = None"
    and "(toLowerCase (trim (the (req_email b))), trim (the (req_position b)))
           \<in> set (map (\<lambda>d. (email d, position d)) coll)"
  shows "post_applicants amb coll b =
           ((409, Failure ''You have already applied for this position''), coll)"
proof -
  have "findOne (\<lambda>d. email d = toLowerCase (trim (the (req_email b))) \<and>
                       position d = trim (the (req_position b))) coll \<noteq> None"
    using assms(2) by (simp only: stored_pair) simp
  then show ?thesis by (auto simp: post_applicants_def assms(1))
qed

lemma post_succeeds:
  assumes "validation_error b = None"
    and "(toLowerCase (trim (the (req_email b))), trim (the (req_position b)))
           \<notin> set (map (\<lambda>d. (email d, position d)) coll)"
    and "schema_valid (applicantData amb b)"
    and "anonymousId (applicantData amb b) \<notin> set (map anonymousId coll)"
  shows "post_applicants amb coll b =
           ((201, Submitted (anonymousId (applicantData amb b)) ''Application submitted successfully''),
            coll @ [applicantData amb b])"
proof -
  have "findOne (\<lambda>d. email d = toLowerCase (trim (the (req_email b))) \<and>
                       position d = trim (the (req_position b))) coll = None"
    using assms(2) by (simp add: stored_pair)
  moreover have "save coll (applicantData amb b) = Inr (coll @ [applicantData amb b])"
    using assms(3,4) by (simp add: save_def)
  ultimately show ?thesis by (simp add: post_applicants_def assms(1))
qed

lemma post_409_only_for_stored_pair:
  assumes "fst (fst (post_applicants amb coll b)) = 409"
  shows "validation_error b = None \<and>
         (toLowerCase (trim (the (req_email b))), trim (the (req_position b)))
           \<in> set (map (\<lambda>d. (email d, position d)) coll)"
proof -
  have v: "validation_error b = None"
    using assms by (auto simp: post_applicants_def split: option.splits)
  have "findOne (\<lambda>d. email d = toLowerCase (trim (the (req_email b))) \<and>
                       position d = trim (the (req_position b))) coll \<noteq> None"
    using assms by (auto simp: post_applicants_def v split: option.splits sum.splits save_error.splits)
  then show ?thesis using v by (simp only: stored_pair) simp
qed

lemma overlapping_stores_duplicate:
  assumes v: "validation_error b1 = None" "validation_error b2 = None"
    and same: "toLowerCase (trim (the (req_email b2))) = toLowerCase (trim (the (req_email b1)))"
      "trim (the (req_position b2)) = trim (the (req_position b1))"
    and new: "(toLowerCase (trim (the (req_email b1))), trim (the (req_position b1)))
                \<notin> set (map (\<lambda>d. (email d, position d)) coll)"
    and ok: "schema_valid (applicantData amb1 b1)" "schema_valid (applicantData amb2 b2)"
    and fresh: "anonymousId (applicantData amb1 b1) \<notin> set (map anonymousId coll)"
      "anonymousId (applicantData amb2 b2) \<notin> set (map anonymousId coll)"
      "anonymousId (applicantData amb2 b2) \<noteq> anonymousId (applicantData amb1 b1)"
  shows "post_applicants_overlapping amb1 b1 amb2 b2 coll =
           (((201, Submitted (anonymousId (applicantData amb1 b1)) ''Application submitted successfully''),
             (201, Submitted (anonymousId (applicantData amb2 b2)) ''Application submitted successfully'')),
            coll @ [applicantData amb1 b1, applicantData amb2 b2])"
    and "\<not> pair_unique (coll @ [applicantData amb1 b1, applicantData amb2 b2])"
proof -
  have absent: "findOne (\<lambda>d. email d = toLowerCase (trim (the (req_email b1))) \<and>
                       position d = trim (the (req_position b1))) coll = None"
    using new by (simp add: stored_pair)
  have e1: "post_before_save coll b1 = None"
    by (simp add: post_before_save_def v(1) absent)
  have e2: "post_before_save coll b2 = None"
    by (simp add: post_before_save_def v(2) same absent)
  have w1: "post_save amb1 coll b1 =
      ((201, Submitted (anonymousId (applicantData amb1 b1)) ''Application submitted successfully''),
       coll @ [applicantData amb1 b1])"
    using ok(1) fresh(1) by (simp add: post_save_def save_def)
  have w2: "post_save amb2 (coll @ [applicantData amb1 b1]) b2 =
      ((201, Submitted (anonymousId (applicantData amb2 b2)) ''Application submitted successfully''),
       coll @ [applicantData amb1 b1, applicantData amb2 b2])"
    using ok(2) fresh(2,3) by (simp add: post_save_def save_def)
  show "post_applicants_overlapping amb1 b1 amb2 b2 coll =
           (((201, Submitted (anonymousId (applicantData amb1 b1)) ''Application submitted successfully''),
             (201, Submitted (anonymousId (applicantData amb2 b2)) ''Application submitted successfully'')),
            coll @ [applicantData amb1 b1, applicantData amb2 b2])"
    by (simp add: post_applicants_overlapping_def e1 e2 w1 w2)
  have "(email (applicantData amb2 b2), position (applicantData amb2 b2)) =
        (email (applicantData amb1 b1), position (applicantData amb1 b1))"
    by (simp add: applicantData_email applicantData_position same)
  then show "\<not> pair_unique (coll @ [applicantData amb1 b1, applicantData amb2 b2])"
    by (simp add: pair_unique_def)
qed


lemma malformed_position:
  assumes "q_position q = Some p" "p \<noteq> []" "RegExp_i eng p = None"
  shows "get_applicants eng coll q = (500, Failure ''Internal server error'')"
proof -
  have "build_filter eng q = Inl SyntaxError"
    using assms by (simp add: build_filter_def falsy_def Let_def)
  then show ?thesis by (simp add: get_applicants_def)
qed

section \<open>The examples evaluated\<close>

lemmas string_eval = trim_def toLowerCase_def lower_char_def toUpperCase_def upper_char_def
  is_space_def is_digit_def plain_char_def substr_def digits36_def toString36.simps char_of_def bit_0

lemma parse_examples:
  "parseInt ''1'' = Some 1" "parseInt ''10'' = Some 10" "parseInt ''1000'' = Some 1000"
  "parseInt ''0'' = Some 0" "parseInt ''abc'' = None" "parseInt '''' = None" "parseInt ''-3'' = Some (-3)"
  "parseInt ''0x1A'' = Some 26" "parseInt ''  42px'' = Some 42"
  by (simp_all add: parseInt_def is_space_def digit_value_def Let_def)

lemma engineer_filter:
  "build_filter literal_engine (by_position ''Engineer'') =
     Inr \<lparr> f_position = Some (\<lambda>s. occurs_in ''engineer'' (toLowerCase s)),
           f_gte = None, f_lte = None, f_skills_in = None \<rparr>"
  by (simp add: build_filter_def literal_engine_def by_position_def falsy_def toLowerCase_def
      lower_char_def char_of_def bit_0)

lemma engineer_matches_jane:
  "matches \<lparr> f_position = Some (\<lambda>s. occurs_in ''engineer'' (toLowerCase s)),
           f_gte = None, f_lte = None, f_skills_in = None \<rparr> jane_record"
  by (simp add: matches_def jane_record_def toLowerCase_def lower_char_def char_of_def bit_0)

lemma engineer_not_sam:
  "\<not> matches \<lparr> f_position = Some (\<lambda>s. occurs_in ''engineer'' (toLowerCase s)),
           f_gte = None, f_lte = None, f_skills_in = None \<rparr> sam_record"
  by (simp add: matches_def sam_record_def toLowerCase_def lower_char_def char_of_def bit_0)

lemma total_pages_eval: "\<lceil>rat_of_nat t / rat_of_int l\<rceil> = - (- int t div l)"
  using ceiling_divide_eq_div [of "int t" l, where ?'a = rat] by simp

lemma list_engineers:
  "get_applicants literal_engine [sam_record, jane_record] (by_position ''Engineer'') =
     (200, Listing [project anonymous_fields jane_record]
        \<lparr> page = 1, limit = 10, total = 1, totalPages = 1, hasNext = False, hasPrev = False \<rparr>)"
  unfolding get_applicants_def engineer_filter total_pages_eval
  by (simp add: pageNum_def limitNum_def by_position_def parse_examples Let_def
      engineer_matches_jane engineer_not_sam)

lemmas submit_eval = validation_error_def falsy_def falsy_number_def falsy_skills_def
  validateEmail_def validatePhone_def skills_of_def Let_def

lemma jane_valid: "validation_error jane = None"
  by (simp add: jane_def submit_eval string_eval)

lemma jane_again_valid: "validation_error jane_again = None"
  by (simp add: jane_again_def submit_eval string_eval)

lemma clock0_id: "generateAnonymousId (id_now clock0) (id_random clock0) = ''APPM2R1BZ7K4FZYO''"
  by (simp add: clock0_def generateAnonymousId_def string_eval)

lemma jane_document: "applicantData clock0 jane = jane_record"
  unfolding applicantData_def clock0_id
  by (simp add: jane_def clock0_def jane_record_def new_Applicant_def skills_of_def string_eval)

lemma jane_record_valid: "schema_valid jane_record"
  by (simp add: schema_valid_def jane_record_def)

lemma jane_first: "post_applicants clock0 [] jane =
    ((201, Submitted ''APPM2R1BZ7K4FZYO'' ''Application submitted successfully''), [jane_record])"
  unfolding post_applicants_def jane_valid jane_document
  by (simp add: findOne_def save_def jane_record_valid) (simp add: jane_record_def)


lemma clock1_id: "generateAnonymousId (id_now clock1) (id_random clock1) = ''APPM2R1C32G9K2D7''"
  by (simp add: clock1_def generateAnonymousId_def string_eval)

lemma jane_again_document: "applicantData clock1 jane_again = jane_again_record"
  unfolding applicantData_def clock1_id
  by (simp add: jane_again_def clock1_def jane_again_record_def new_Applicant_def skills_of_def string_eval)

lemma jane_again_record_valid: "schema_valid jane_again_record"
  by (simp add: schema_valid_def jane_again_record_def)


lemma cpp_never_listed:
  "get_applicants strict_engine coll ((by_position ''C++'')\<lparr>q_page := pg, q_limit := lm\<rparr>) =
     (500, Failure ''Internal server error'')"
  by (rule malformed_position [of _ "''C++''"]) (simp_all add: by_position_def strict_engine_def)

section \<open>The properties\<close>

text \<open>
  C1. Whatever the stored documents and whatever the query parameters, every item of the
  list that \<open>GET /api/applicants\<close> returns has exactly the keys anonymousId, position,
  experience, skills, education, submittedAt and status, so none of name, email and phone;
  the response is either such a listing or the internal-error response, which has no items.
\<close>

theorem list_is_anonymous:
  "(\<forall>item\<in>set (listed (get_applicants eng coll q)).
      keys item = [''anonymousId'', ''position'', ''experience'', ''skills'', ''education'',
                   ''submittedAt'', ''status''] \<and>
      ''name'' \<notin> set (keys item) \<and> ''email'' \<notin> set (keys item) \<and> ''phone'' \<notin> set (keys item)) \<and>
   ((\<exists>items pg. get_applicants eng coll q = (200, Listing items pg)) \<or>
    get_applicants eng coll q = (500, Failure ''Internal server error''))"
proof -
  have "\<forall>item\<in>set (listed (get_applicants eng coll q)).
      keys item = [''anonymousId'', ''position'', ''experience'', ''skills'', ''education'',
                   ''submittedAt'', ''status'']"
    using get_applicants_shape [of eng q coll]
    by (auto simp: listed_def keys_project_anonymous)
  moreover have "(\<exists>items pg. get_applicants eng coll q = (200, Listing items pg)) \<or>
    get_applicants eng coll q = (500, Failure ''Internal server error'')"
    using get_applicants_shape [of eng q coll] by auto
  ultimately show ?thesis by simp
qed

text \<open>The listing of the engineers among two stored documents, as an instance of C1.\<close>

theorem list_is_anonymous_witness:
  "project anonymous_fields jane_record
     \<in> set (listed (get_applicants literal_engine [sam_record, jane_record] (by_position ''Engineer''))) \<and>
   keys (project anonymous_fields jane_record) =
     [''anonymousId'', ''position'', ''experience'', ''skills'', ''education'', ''submittedAt'', ''status''] \<and>
   ''name'' \<notin> set (keys (project anonymous_fields jane_record)) \<and>
   ''email'' \<notin> set (keys (project anonymous_fields jane_record)) \<and>
   ''phone'' \<notin> set (keys (project anonymous_fields jane_record))"
proof -
  have mem: "project anonymous_fields jane_record
     \<in> set (listed (get_applicants literal_engine [sam_record, jane_record] (by_position ''Engineer'')))"
    by (simp add: list_engineers listed_def)
  from list_is_anonymous [of literal_engine "[sam_record, jane_record]" "by_position ''Engineer''"] mem
  show ?thesis by blast
qed

text \<open>
  C2. \<open>GET /api/applicants/:id\<close> answers 200 with exactly the name, email and phone of a
  stored document whose anonymousId equals the identifier when there is one, and 404
  \<open>Applicant not found\<close> when there is none; the object it returns has the keys name,
  email and phone only, so none of position, experience, skills, education, status and
  submittedAt.
\<close>

theorem contact_reveal:
  "((\<exists>d\<in>set coll. anonymousId d = aid) \<longrightarrow>
      (\<exists>d\<in>set coll. anonymousId d = aid \<and>
         get_applicant_by_id coll aid =
           (200, Contact [(''name'', JString (name d)), (''email'', JString (email d)),
                          (''phone'', JString (phone d))]))) \<and>
   ((\<forall>d\<in>set coll. anonymousId d \<noteq> aid) \<longrightarrow>
      get_applicant_by_id coll aid = (404, Failure ''Applicant not found'')) \<and>
   (\<forall>obj. snd (get_applicant_by_id coll aid) = Contact obj \<longrightarrow>
      keys obj = [''name'', ''email'', ''phone''] \<and>
      (\<forall>k\<in>set [''position'', ''experience'', ''skills'', ''education'', ''status'', ''submittedAt''].
         k \<notin> set (keys obj)))"
proof (intro conjI impI allI)
  assume ex: "\<exists>d\<in>set coll. anonymousId d = aid"
  from find_first [OF ex, of id] obtain i where i: "i < length coll" "anonymousId (coll ! i) = aid"
    "find (\<lambda>d. anonymousId d = aid) coll = Some (coll ! i)" by blast
  have "get_applicant_by_id coll aid =
           (200, Contact [(''name'', JString (name (coll ! i))), (''email'', JString (email (coll ! i))),
                          (''phone'', JString (phone (coll ! i)))])"
    by (simp add: get_applicant_by_id_def findOne_def i(3) project_contact)
  moreover have "coll ! i \<in> set coll" using i(1) by simp
  ultimately show "\<exists>d\<in>set coll. anonymousId d = aid \<and>
         get_applicant_by_id coll aid =
           (200, Contact [(''name'', JString (name d)), (''email'', JString (email d)),
                          (''phone'', JString (phone d))])"
    using i(2) by blast
next
  assume "\<forall>d\<in>set coll. anonymousId d \<noteq> aid"
  then have "find (\<lambda>d. anonymousId d = aid) coll = None" by (simp add: find_None_iff)
  then show "get_applicant_by_id coll aid = (404, Failure ''Applicant not found'')"
    by (simp add: get_applicant_by_id_def findOne_def)
next
  fix obj
  assume "snd (get_applicant_by_id coll aid) = Contact obj"
  then have obj: "keys obj = [''name'', ''email'', ''phone'']"
    by (auto simp: get_applicant_by_id_def project_contact keys_def split: option.splits)
  then show "keys obj = [''name'', ''email'', ''phone'']" .
  show "\<forall>k\<in>set [''position'', ''experience'', ''skills'', ''education'', ''status'', ''submittedAt''].
         k \<notin> set (keys obj)"
    by (simp add: obj)
qed

text \<open>The contact of a stored identifier and the answer to an unknown one, as instances of C2.\<close>

theorem contact_reveal_witness:
  "get_applicant_by_id [sam_record, jane_record] ''APPM2R1BZ7K4FZYO'' =
     (200, Contact [(''name'', JString ''Jane Doe''), (''email'', JString ''jane@x.com''),
                    (''phone'', JString ''+12025550123'')]) \<and>
   get_applicant_by_id [sam_record, jane_record] ''APPNOSUCHID'' =
     (404, Failure ''Applicant not found'')"
proof -
  have known: "\<exists>d\<in>set [sam_record, jane_record]. anonymousId d = ''APPM2R1BZ7K4FZYO''"
    by (simp add: jane_record_def)
  have unknown: "\<forall>d\<in>set [sam_record, jane_record]. anonymousId d \<noteq> ''APPNOSUCHID''"
    by (simp add: jane_record_def sam_record_def)
  from contact_reveal [of "[sam_record, jane_record]" "''APPM2R1BZ7K4FZYO''"] known
  obtain d where d: "d \<in> set [sam_record, jane_record]" "anonymousId d = ''APPM2R1BZ7K4FZYO''"
    "get_applicant_by_id [sam_record, jane_record] ''APPM2R1BZ7K4FZYO'' =
       (200, Contact [(''name'', JString (name d)), (''email'', JString (email d)),
                      (''phone'', JString (phone d))])"
    by blast
  from d(1,2) have "d = jane_record" by (auto simp: sam_record_def)
  with d(3) have "get_applicant_by_id [sam_record, jane_record] ''APPM2R1BZ7K4FZYO'' =
     (200, Contact [(''name'', JString ''Jane Doe''), (''email'', JString ''jane@x.com''),
                    (''phone'', JString ''+12025550123'')])"
    by (simp add: jane_record_def)
  moreover from contact_reveal [of "[sam_record, jane_record]" "''APPNOSUCHID''"] unknown
  have "get_applicant_by_id [sam_record, jane_record] ''APPNOSUCHID'' =
     (404, Failure ''Applicant not found'')" by blast
  ultimately show ?thesis by simp
qed

text \<open>
  C3 fails as stated: two submissions with one email and position whose handling overlaps
  both pass the check for an existing application, which each makes before the other has
  written; no index of the schema refuses the second write, both are answered 201, and the
  collection holds the pair twice.
\<close>

theorem overlapping_submissions_counterexample:
  "pair_unique [] \<and>
   post_applicants_overlapping clock0 jane clock1 jane_again [] =
     (((201, Submitted ''APPM2R1BZ7K4FZYO'' ''Application submitted successfully''),
       (201, Submitted ''APPM2R1C32G9K2D7'' ''Application submitted successfully'')),
      [jane_record, jane_again_record]) \<and>
   email jane_again_record = email jane_record \<and>
   position jane_again_record = position jane_record \<and>
   \<not> pair_unique [jane_record, jane_again_record]"
proof -
  have same: "toLowerCase (trim (the (req_email jane_again))) = toLowerCase (trim (the (req_email jane)))"
    "trim (the (req_position jane_again)) = trim (the (req_position jane))"
    by (simp_all add: jane_def jane_again_def)
  have ids: "anonymousId jane_again_record \<noteq> anonymousId jane_record"
    by (simp add: jane_record_def jane_again_record_def)
  note race = overlapping_stores_duplicate [of jane jane_again "[]" clock0 clock1,
      unfolded jane_document jane_again_document, OF jane_valid jane_again_valid same _
      jane_record_valid jane_again_record_valid _ _ ids, simplified]
  have "email jane_again_record = email jane_record \<and> position jane_again_record = position jane_record"
    by (simp add: jane_record_def jane_again_record_def)
  moreover have "pair_unique []" by (simp add: pair_unique_def)
  moreover have "anonymousId jane_record = ''APPM2R1BZ7K4FZYO''"
    "anonymousId jane_again_record = ''APPM2R1C32G9K2D7''"
    by (simp_all add: jane_record_def jane_again_record_def)
  ultimately show ?thesis using race by simp
qed

text \<open>
  C3 as amended: when each request is handled to its end before the next one begins, the
  two handlers that write keep the pair of email and position, as stored, unique among the
  documents (the other handlers only read). A submission that passes the validation is
  answered 409, and changes nothing, when a stored document has its pair, and only then;
  when none has and the write succeeds it is stored and answered 201. So of two
  submissions with the same email and position the first succeeds and the second gets 409,
  whatever its other fields.
\<close>

theorem email_position_unique:
  "(pair_unique coll \<longrightarrow>
      pair_unique (snd (post_applicants amb coll b)) \<and>
      pair_unique (snd (patch_applicant_status coll aid st))) \<and>
   (validation_error b = None \<and>
    (toLowerCase (trim (the (req_email b))), trim (the (req_position b)))
       \<in> set (map (\<lambda>d. (email d, position d)) coll) \<longrightarrow>
      post_applicants amb coll b =
        ((409, Failure ''You have already applied for this position''), coll)) \<and>
   (validation_error b = None \<and>
    (toLowerCase (trim (the (req_email b))), trim (the (req_position b)))
       \<notin> set (map (\<lambda>d. (email d, position d)) coll) \<and>
    schema_valid (applicantData amb b) \<and>
    anonymousId (applicantData amb b) \<notin> set (map anonymousId coll) \<longrightarrow>
      post_applicants amb coll b =
        ((201, Submitted (anonymousId (applicantData amb b)) ''Application submitted successfully''),
         coll @ [applicantData amb b])) \<and>
   (fst (fst (post_applicants amb coll b)) = 409 \<longrightarrow>
      validation_error b = None \<and>
      (toLowerCase (trim (the (req_email b))), trim (the (req_position b)))
         \<in> set (map (\<lambda>d. (email d, position d)) coll)) \<and>
   (post_applicants amb coll b = ((201, bd), coll1) \<and>
    validation_error b2 = None \<and>
    toLowerCase (trim (the (req_email b2))) = toLowerCase (trim (the (req_email b))) \<and>
    trim (the (req_position b2)) = trim (the (req_position b)) \<longrightarrow>
      post_applicants amb2 coll1 b2 =
        ((409, Failure ''You have already applied for this position''), coll1))"
proof (intro conjI impI)
  assume "pair_unique coll"
  then show "pair_unique (snd (post_applicants amb coll b))"
    and "pair_unique (snd (patch_applicant_status coll aid st))"
    by (rule post_keeps_pair_unique, rule patch_keeps_pair_unique)
next
  assume "validation_error b = None \<and>
    (toLowerCase (trim (the (req_email b))), trim (the (req_position b)))
       \<in> set (map (\<lambda>d. (email d, position d)) coll)"
  then show "post_applicants amb coll b =
        ((409, Failure ''You have already applied for this position''), coll)"
    using post_conflict by blast
next
  assume "validation_error b = None \<and>
    (toLowerCase (trim (the (req_email b))), trim (the (req_position b)))
       \<notin> set (map (\<lambda>d. (email d, position d)) coll) \<and>
    schema_valid (applicantData amb b) \<and>
    anonymousId (applicantData amb b) \<notin> set (map anonymousId coll)"
  then show "post_applicants amb coll b =
        ((201, Submitted (anonymousId (applicantData amb b)) ''Application submitted successfully''),
         coll @ [applicantData amb b])"
    using post_succeeds by blast
next
  assume a: "fst (fst (post_applicants amb coll b)) = 409"
  show "validation_error b = None"
    using post_409_only_for_stored_pair [OF a] by simp
  show "(toLowerCase (trim (the (req_email b))), trim (the (req_position b)))
         \<in> set (map (\<lambda>d. (email d, position d)) coll)"
    using post_409_only_for_stored_pair [OF a] by simp
next
  assume "post_applicants amb coll b = ((201, bd), coll1) \<and>
    validation_error b2 = None \<and>
    toLowerCase (trim (the (req_email b2))) = toLowerCase (trim (the (req_email b))) \<and>
    trim (the (req_position b2)) = trim (the (req_position b))"
  then show "post_applicants amb2 coll1 b2 =
        ((409, Failure ''You have already applied for this position''), coll1)"
    using second_submission_conflicts [of amb coll b bd coll1 b2 amb2] by blast
qed

text \<open>Two submissions with one email and position and nothing else in common, one after the other, as an instance of the amended C3.\<close>

theorem email_position_unique_witness:
  "pair_unique [] \<and>
   post_applicants clock0 [] jane =
     ((201, Submitted ''APPM2R1BZ7K4FZYO'' ''Application submitted successfully''), [jane_record]) \<and>
   pair_unique [jane_record] \<and>
   post_applicants clock1 [jane_record] jane_again =
     ((409, Failure ''You have already applied for this position''), [jane_record])"
proof -
  have e: "pair_unique []" by (simp add: pair_unique_def)
  have same: "toLowerCase (trim (the (req_email jane_again))) = toLowerCase (trim (the (req_email jane)))"
    "trim (the (req_position jane_again)) = trim (the (req_position jane))"
    by (simp_all add: jane_def jane_again_def)
  note first = email_position_unique [of "[]" clock0 jane "[]" None
      "Submitted ''APPM2R1BZ7K4FZYO'' ''Application submitted successfully''" "[jane_record]"
      jane_again clock1, unfolded jane_document]
  have created: "post_applicants clock0 [] jane =
     ((201, Submitted ''APPM2R1BZ7K4FZYO'' ''Application submitted successfully''), [jane_record])"
    using first jane_valid jane_record_valid by (simp add: jane_record_def)
  have kept: "pair_unique [jane_record]"
    using first e created by simp
  have stored: "(toLowerCase (trim (the (req_email jane_again))), trim (the (req_position jane_again)))
       \<in> set (map (\<lambda>d. (email d, position d)) [jane_record])"
    by (simp add: jane_again_def jane_record_def string_eval)
  note second = email_position_unique [of "[jane_record]" clock1 jane_again "[]" None]
  have "post_applicants clock1 [jane_record] jane_again =
     ((409, Failure ''You have already applied for this position''), [jane_record])"
    using second jane_again_valid stored by blast
  with e created kept show ?thesis by simp
qed
text \<open>
  C4, at the input where the handler departs from it: a submission that is valid in every
  other field and has experience 0 is answered 400 \<open>All fields are required\<close> and nothing
  is stored, because \<open>!experience\<close> holds of 0. With experience 50 the same submission is
  stored, and with 50.1 and with -1 it is answered 400 for the range.
\<close>

theorem experience_zero_rejected:
  "post_applicants clock0 [] (jane\<lparr>req_experience := Some 0\<rparr>) =
     ((400, Failure ''All fields are required''), []) \<and>
   post_applicants clock0 [] (jane\<lparr>req_experience := Some 50\<rparr>) =
     ((201, Submitted ''APPM2R1BZ7K4FZYO'' ''Application submitted successfully''),
      [jane_record\<lparr>experience := 50\<rparr>]) \<and>
   post_applicants clock0 [] (jane\<lparr>req_experience := Some 50.1\<rparr>) =
     ((400, Failure ''Experience must be between 0 and 50 years''), []) \<and>
   post_applicants clock0 [] (jane\<lparr>req_experience := Some (- 1)\<rparr>) =
     ((400, Failure ''Experience must be between 0 and 50 years''), [])"
proof (intro conjI)
  show "post_applicants clock0 [] (jane\<lparr>req_experience := Some 0\<rparr>) =
     ((400, Failure ''All fields are required''), [])"
    by (simp add: post_applicants_def validation_error_def falsy_number_def)
  have v: "validation_error (jane\<lparr>req_experience := Some 50\<rparr>) = None"
    by (simp add: jane_def submit_eval string_eval)
  have d: "applicantData clock0 (jane\<lparr>req_experience := Some 50\<rparr>) = jane_record\<lparr>experience := 50\<rparr>"
    unfolding applicantData_def clock0_id
    by (simp add: jane_def clock0_def jane_record_def new_Applicant_def skills_of_def string_eval)
  show "post_applicants clock0 [] (jane\<lparr>req_experience := Some 50\<rparr>) =
     ((201, Submitted ''APPM2R1BZ7K4FZYO'' ''Application submitted successfully''),
      [jane_record\<lparr>experience := 50\<rparr>])"
    unfolding post_applicants_def v d
    by (simp add: findOne_def save_def schema_valid_def jane_record_def)
  show "post_applicants clock0 [] (jane\<lparr>req_experience := Some 50.1\<rparr>) =
     ((400, Failure ''Experience must be between 0 and 50 years''), [])"
    by (simp add: post_applicants_def jane_def submit_eval string_eval)
  show "post_applicants clock0 [] (jane\<lparr>req_experience := Some (- 1)\<rparr>) =
     ((400, Failure ''Experience must be between 0 and 50 years''), [])"
    by (simp add: post_applicants_def jane_def submit_eval string_eval)
qed

lemma ann_collides: "save [ann_record] (applicantData clock0 jane) = Inl DuplicateKey"
  unfolding jane_document
  by (simp add: save_def jane_record_valid) (simp add: jane_record_def ann_record_def)

lemma ann_is_no_duplicate:
  "findOne (\<lambda>d. email d = toLowerCase (trim (the (req_email jane))) \<and>
                 position d = trim (the (req_position jane))) [ann_record] = None"
  by (simp add: findOne_def jane_def ann_record_def string_eval)

text \<open>
  C5 fails as stated: with a stored document that already has the identifier generated
  for the submission, the write fails on the unique index and the answer is 500, not 409,
  and no second identifier is tried.
\<close>

theorem write_time_duplicate_counterexample:
  "save [ann_record] (applicantData clock0 jane) = Inl DuplicateKey \<and>
   post_applicants clock0 [ann_record] jane =
     ((500, Failure ''Duplicate application detected. Please try again.''), [ann_record]) \<and>
   fst (fst (post_applicants clock0 [ann_record] jane)) \<noteq> 409"
proof -
  have "post_applicants clock0 [ann_record] jane =
     ((500, Failure ''Duplicate application detected. Please try again.''), [ann_record])"
    unfolding post_applicants_def jane_valid ann_is_no_duplicate ann_collides by simp
  then show ?thesis using ann_collides by simp
qed

text \<open>
  C5 as amended: when the submission passes the validation and the check for an existing
  application, and the write fails on the uniqueness constraint, the handler answers 500
  with the message \<open>Duplicate application detected. Please try again.\<close> and the collection
  is unchanged.
\<close>

theorem write_time_duplicate_is_500:
  assumes "validation_error b = None"
    and "findOne (\<lambda>d. email d = toLowerCase (trim (the (req_email b))) \<and>
                       position d = trim (the (req_position b))) coll = None"
    and "save coll (applicantData amb b) = Inl DuplicateKey"
  shows "post_applicants amb coll b =
           ((500, Failure ''Duplicate application detected. Please try again.''), coll)"
  using assms by (simp add: post_applicants_def)

text \<open>The colliding identifier above, as an instance of the amended C5.\<close>

theorem write_time_duplicate_is_500_witness:
  "validation_error jane = None \<and>
   save [ann_record] (applicantData clock0 jane) = Inl DuplicateKey \<and>
   post_applicants clock0 [ann_record] jane =
     ((500, Failure ''Duplicate application detected. Please try again.''), [ann_record])"
  using write_time_duplicate_is_500 [of jane "[ann_record]" clock0, OF jane_valid ann_is_no_duplicate ann_collides]
    jane_valid ann_collides
  by simp




text \<open>
  Pagination on parameters that \<open>parseInt\<close> reads as integers: the page is the larger of 1
  and the requested page, 1 when none is given; the limit is the requested limit brought
  into the range from 1 to 50, 10 when none is given; and a page after the last one has
  no items and no next page.
\<close>

lemma pagination_on_integers:
  "(q_page q = None \<longrightarrow> pageNum q = Some 1) \<and>
   (q_page q = Some s \<and> parseInt s = Some n \<longrightarrow> pageNum q = Some (max 1 n)) \<and>
   (q_limit q = None \<longrightarrow> limitNum q = Some 10) \<and>
   (q_limit q = Some s' \<and> parseInt s' = Some n' \<longrightarrow>
      limitNum q = Some (min 50 (max 1 n')) \<and> 1 \<le> min 50 (max 1 n') \<and> min 50 (max 1 n') \<le> 50)"
  by (auto simp: pageNum_def limitNum_def parse_examples)

lemma page_after_last_is_empty:
  assumes "get_applicants eng coll q = (200, Listing items pg)" and "totalPages pg < page pg"
  shows "items = [] \<and> \<not> hasNext pg"
proof -
  from assms(1) obtain f pnum lnum where f: "build_filter eng q = Inr f"
    and p: "pageNum q = Some pnum" and l: "limitNum q = Some lnum"
    by (auto simp: get_applicants_def split: sum.splits option.splits)
  let ?found = "filter (matches f) coll"
  note r = assms(1) [unfolded get_applicants_listing [OF f p l]]
  have pg: "page pg = pnum" "totalPages pg = \<lceil>rat_of_nat (length ?found) / rat_of_int lnum\<rceil>"
    "hasNext pg = (pnum < \<lceil>rat_of_nat (length ?found) / rat_of_int lnum\<rceil>)"
    using r by auto
  have items: "items = map (project anonymous_fields)
           (take (nat lnum) (drop (nat ((pnum - 1) * lnum))
              (sort_key (\<lambda>d. - int (submittedAt d)) ?found)))"
    using r by simp
  have lpos: "0 < lnum" using limitNum_range [OF l] by simp
  have "rat_of_nat (length ?found) / rat_of_int lnum \<le> rat_of_int (pnum - 1)"
    using assms(2) unfolding pg by (simp add: ceiling_less_iff)
  then have "rat_of_nat (length ?found) \<le> rat_of_int (pnum - 1) * rat_of_int lnum"
    using lpos by (simp add: pos_divide_le_eq)
  then have "rat_of_int (int (length ?found)) \<le> rat_of_int ((pnum - 1) * lnum)"
    by simp
  then have "int (length ?found) \<le> (pnum - 1) * lnum"
    by (simp only: of_int_le_iff)
  then have "length ?found \<le> nat ((pnum - 1) * lnum)" by simp
  then have "items = []" unfolding items by simp
  moreover have "\<not> hasNext pg" using assms(2) unfolding pg by simp
  ultimately show ?thesis by simp
qed

text \<open>
  C7, at the input where the handler departs from it: for the request
  \<open>?position=Engineer&limit=abc\<close>, \<open>parseInt\<close> gives \<open>NaN\<close>, which \<open>Math.max\<close> and
  \<open>Math.min\<close> pass on, so there is no effective limit between 1 and 50 and the default 10 is
  not used; the same holds of the page for \<open>?page=abc\<close>. The request is answered 500.
\<close>

theorem limit_not_a_number:
  "limitNum ((by_position ''Engineer'')\<lparr>q_limit := Some ''abc''\<rparr>) = None \<and>
   pageNum ((by_position ''Engineer'')\<lparr>q_page := Some ''abc''\<rparr>) = None \<and>
   get_applicants literal_engine [sam_record, jane_record]
     ((by_position ''Engineer'')\<lparr>q_limit := Some ''abc''\<rparr>) = (500, Failure ''Internal server error'')"
proof (intro conjI)
  show l: "limitNum ((by_position ''Engineer'')\<lparr>q_limit := Some ''abc''\<rparr>) = None"
    by (simp add: limitNum_def parse_examples)
  show "pageNum ((by_position ''Engineer'')\<lparr>q_page := Some ''abc''\<rparr>) = None"
    by (simp add: pageNum_def parse_examples)
  show "get_applicants literal_engine [sam_record, jane_record]
     ((by_position ''Engineer'')\<lparr>q_limit := Some ''abc''\<rparr>) = (500, Failure ''Internal server error'')"
    unfolding get_applicants_def l by (simp split: sum.splits option.splits)
qed




text \<open>
  C9. For a valid status and an identifier that some stored document has, the status
  update answers 200 with the identifier and the new status, and the collection after it is
  the collection before with the status of the first document of that identifier replaced:
  the other fields of that document and all other documents are as they were.
\<close>

theorem status_update_frame:
  assumes "st \<in> set validStatuses" and "\<exists>d\<in>set coll. anonymousId d = aid"
  shows "\<exists>i<length coll. anonymousId (coll ! i) = aid \<and> (\<forall>j<i. anonymousId (coll ! j) \<noteq> aid) \<and>
           patch_applicant_status coll aid (Some st) =
             ((200, StatusUpdated [(''anonymousId'', JString aid), (''status'', JString st)]
                      ''Status updated successfully''),
              coll[i := (coll ! i)\<lparr>status := st\<rparr>])"
proof -
  from find_first [OF assms(2), of "\<lambda>d. d\<lparr>status := st\<rparr>"] obtain i where i: "i < length coll"
    "anonymousId (coll ! i) = aid" "\<forall>j<i. anonymousId (coll ! j) \<noteq> aid"
    "find (\<lambda>d. anonymousId d = aid) coll = Some (coll ! i)"
    "update_first (\<lambda>d. anonymousId d = aid) (\<lambda>d. d\<lparr>status := st\<rparr>) coll = coll[i := (coll ! i)\<lparr>status := st\<rparr>]"
    by blast
  have ne: "st \<noteq> []" using assms(1) by (auto simp: validStatuses_def)
  have "patch_applicant_status coll aid (Some st) =
             ((200, StatusUpdated [(''anonymousId'', JString aid), (''status'', JString st)]
                      ''Status updated successfully''),
              coll[i := (coll ! i)\<lparr>status := st\<rparr>])"
    using assms(1) ne i(2)
    by (simp add: patch_applicant_status_def falsy_def findOne_def i(4) i(5) project_status)
  then show ?thesis using i(1,2,3) by blast
qed

text \<open>Marking the second of two stored applicants as contacted, as an instance of C9.\<close>

theorem status_update_frame_witness:
  "patch_applicant_status [sam_record, jane_record] ''APPM2R1BZ7K4FZYO'' (Some ''contacted'') =
     ((200, StatusUpdated [(''anonymousId'', JString ''APPM2R1BZ7K4FZYO''),
                           (''status'', JString ''contacted'')] ''Status updated successfully''),
      [sam_record, jane_record\<lparr>status := ''contacted''\<rparr>])"
proof -
  have v: "''contacted'' \<in> set validStatuses" by (simp add: validStatuses_def)
  have ex: "\<exists>d\<in>set [sam_record, jane_record]. anonymousId d = ''APPM2R1BZ7K4FZYO''"
    by (simp add: jane_record_def)
  from status_update_frame [OF v ex] obtain i where i: "i < length [sam_record, jane_record]"
    "anonymousId ([sam_record, jane_record] ! i) = ''APPM2R1BZ7K4FZYO''"
    "patch_applicant_status [sam_record, jane_record] ''APPM2R1BZ7K4FZYO'' (Some ''contacted'') =
       ((200, StatusUpdated [(''anonymousId'', JString ''APPM2R1BZ7K4FZYO''),
                             (''status'', JString ''contacted'')] ''Status updated successfully''),
        [sam_record, jane_record][i := ([sam_record, jane_record] ! i)\<lparr>status := ''contacted''\<rparr>])"
    by blast
  from i(1) have "i = 0 \<or> i = 1" by auto
  with i(2) have "i = 1" by (auto simp: sam_record_def)
  with i(3) show ?thesis by simp
qed

text \<open>
  C10. A status that is missing or is not one of pending, reviewed, contacted and rejected
  is answered 400 before any document is looked up, whether the identifier exists or
  not, and the collection is unchanged.
\<close>

theorem invalid_status_rejected_before_lookup:
  assumes "st = None \<or> the st \<notin> set validStatuses"
  shows "patch_applicant_status coll aid st =
           ((400, Failure ''Valid status is required: pending, reviewed, contacted, rejected''), coll)"
  using assms by (auto simp: patch_applicant_status_def falsy_def)

text \<open>The status \<open>hired\<close> for an unknown and for a stored identifier, as instances of C10.\<close>

theorem invalid_status_rejected_before_lookup_witness:
  "the (Some ''hired'') \<notin> set validStatuses \<and>
   ''APPNOSUCHID'' \<notin> set (map anonymousId [sam_record, jane_record]) \<and>
   patch_applicant_status [sam_record, jane_record] ''APPNOSUCHID'' (Some ''hired'') =
     ((400, Failure ''Valid status is required: pending, reviewed, contacted, rejected''),
      [sam_record, jane_record]) \<and>
   patch_applicant_status [sam_record, jane_record] ''APPM2R1BZ7K4FZYO'' (Some ''hired'') =
     ((400, Failure ''Valid status is required: pending, reviewed, contacted, rejected''),
      [sam_record, jane_record])"
proof -
  have h: "Some ''hired'' = None \<or> the (Some ''hired'') \<notin> set validStatuses"
    by (simp add: validStatuses_def)
  have u: "''APPNOSUCHID'' \<notin> set (map anonymousId [sam_record, jane_record])"
    by (simp add: jane_record_def sam_record_def)
  from invalid_status_rejected_before_lookup [OF h, of "[sam_record, jane_record]" "''APPNOSUCHID''"]
    invalid_status_rejected_before_lookup [OF h, of "[sam_record, jane_record]" "''APPM2R1BZ7K4FZYO''"]
    h u
  show ?thesis by simp
qed

end
